theory Spec2Isabelle
  imports Complex_Main "HOL-Library.Multiset" "HOL-Library.Sublist"
begin

section \<open>Scribe: transcript model, speaker naming and renderers\<close>

text \<open>
  A shallow embedding of the pure core of the scribe command-line tool:
  \<^verbatim>\<open>scribe/models.py\<close>, \<^verbatim>\<open>scribe/utils.py\<close>, the two speaker-naming
  functions and the \<^verbatim>\<open>batch\<close> command of \<^verbatim>\<open>scribe/cli.py\<close>, and
  \<^verbatim>\<open>DeepgramProvider._parse_response\<close>.

  Conventions. Python \<^verbatim>\<open>int\<close> is \<^typ>\<open>int\<close>. Python \<^verbatim>\<open>float\<close> is idealised as
  \<^typ>\<open>real\<close> (finite values, exact arithmetic). Python \<^verbatim>\<open>str\<close> is \<^typ>\<open>string\<close>;
  the line feed is \<open>CHR 0x0A\<close>. An index or a key lookup that raises in the source
  gives a value \<open>Inl e\<close> of a sum type; the exit of a command is its exit code.
\<close>

subsection \<open>Python primitives\<close>

datatype error = IndexError | KeyError

text \<open>\<^verbatim>\<open>str(n)\<close> for a non-negative integer: its decimal digits.\<close>

definition digit_char :: "nat \<Rightarrow> char" where
  "digit_char d = ''0123456789'' ! d"

fun str_nat :: "nat \<Rightarrow> string" where
  "str_nat n = (if n < 10 then [digit_char n] else str_nat (n div 10) @ [digit_char (n mod 10)])"

declare str_nat.simps [simp del]

text \<open>\<^verbatim>\<open>f"{i}"\<close> for an integer.\<close>

definition str_int :: "int \<Rightarrow> string" where
  "str_int i = (if i < 0 then CHR ''-'' # str_nat (nat (- i)) else str_nat (nat i))"

text \<open>
  \<^verbatim>\<open>f"{i:02d}"\<close>: the decimal digits, padded with zeros on the left up to width 2; the
  sign of a negative number counts towards the width.
\<close>

definition fmt_02d :: "int \<Rightarrow> string" where
  "fmt_02d i =
     (if i < 0
      then CHR ''-'' # replicate (1 - length (str_nat (nat (- i)))) CHR ''0'' @ str_nat (nat (- i))
      else replicate (2 - length (str_nat (nat i))) CHR ''0'' @ str_nat (nat i))"

text \<open>\<^verbatim>\<open>x // y\<close> and \<^verbatim>\<open>x % y\<close> on floats, for a positive divisor, and \<^verbatim>\<open>int(x)\<close>.\<close>

definition py_floordiv :: "real \<Rightarrow> real \<Rightarrow> real" where
  "py_floordiv x y = of_int \<lfloor>x / y\<rfloor>"

definition py_mod :: "real \<Rightarrow> real \<Rightarrow> real" where
  "py_mod x y = x - y * of_int \<lfloor>x / y\<rfloor>"

definition py_int :: "real \<Rightarrow> int" where
  "py_int x = (if x < 0 then \<lceil>x\<rceil> else \<lfloor>x\<rfloor>)"

text \<open>\<^verbatim>\<open>sep.join(parts)\<close>.\<close>

fun join :: "string \<Rightarrow> string list \<Rightarrow> string" where
  "join sep [] = []"
| "join sep [x] = x"
| "join sep (x # y # ys) = x @ sep @ join sep (y # ys)"

definition NL :: string where
  "NL = [CHR 0x0A]"

text \<open>
  \<^verbatim>\<open>xs[i]\<close> on a list of length \<open>n\<close>: position \<open>i\<close> for \<open>0 \<le> i < n\<close>, position
  \<open>n + i\<close> for \<open>- n \<le> i < 0\<close>, and \<^verbatim>\<open>IndexError\<close> otherwise.
\<close>

definition list_getitem :: "'a list \<Rightarrow> int \<Rightarrow> error + 'a" where
  "list_getitem xs i =
     (if 0 \<le> i \<and> i < int (length xs) then Inr (xs ! nat i)
      else if i < 0 \<and> - int (length xs) \<le> i then Inr (xs ! nat (int (length xs) + i))
      else Inl IndexError)"

text \<open>
  A \<^verbatim>\<open>dict\<close> with integer keys is an association list in insertion order:
  \<^verbatim>\<open>d[k]\<close>, \<^verbatim>\<open>d.get(k, default)\<close>, \<^verbatim>\<open>k in d\<close> and \<^verbatim>\<open>sorted(d)\<close>.
\<close>

type_synonym 'v dict = "(int \<times> 'v) list"

definition dict_getitem :: "'v dict \<Rightarrow> int \<Rightarrow> error + 'v" where
  "dict_getitem d k = (case map_of d k of None \<Rightarrow> Inl KeyError | Some v \<Rightarrow> Inr v)"

definition dict_get :: "'v dict \<Rightarrow> int \<Rightarrow> 'v \<Rightarrow> 'v" where
  "dict_get d k dflt = (case map_of d k of None \<Rightarrow> dflt | Some v \<Rightarrow> v)"

definition dict_contains :: "'v dict \<Rightarrow> int \<Rightarrow> bool" where
  "dict_contains d k = (map_of d k \<noteq> None)"

definition sorted_keys :: "'v dict \<Rightarrow> int list" where
  "sorted_keys d = sort (map fst d)"

text \<open>A comprehension whose element expression may raise stops at the first error.\<close>

fun map_result :: "('a \<Rightarrow> error + 'b) \<Rightarrow> 'a list \<Rightarrow> error + 'b list" where
  "map_result f [] = Inr []"
| "map_result f (x # xs) =
     (case f x of
        Inl e \<Rightarrow> Inl e
      | Inr y \<Rightarrow> (case map_result f xs of Inl e \<Rightarrow> Inl e | Inr ys \<Rightarrow> Inr (y # ys)))"

text \<open>\<^verbatim>\<open>range(n)\<close>.\<close>

definition py_range :: "nat \<Rightarrow> int list" where
  "py_range n = map int [0..<n]"

subsection \<open>The data model (\<^verbatim>\<open>models.py\<close>)\<close>

text \<open>
  The fields \<^verbatim>\<open>end\<close> and \<^verbatim>\<open>text\<close> of \<^verbatim>\<open>Utterance\<close> are named \<open>utt_end\<close> and
  \<open>utt_text\<close>. A transcript is polymorphic in what its \<open>utterances\<close> list holds:
  utterance values, or the addresses of utterance objects in a store.
\<close>

record utterance =
  speaker :: int
  speaker_name :: string
  start :: real
  utt_end :: real
  utt_text :: string

record 'u transcript_of =
  source_file :: string
  duration :: real
  speakers :: "string list"
  utterances :: "'u list"
  raw_text :: string

type_synonym transcript = "utterance transcript_of"

record summary =
  title :: string
  summary :: string
  key_points :: "string list"
  action_items :: "string list"

record action_item =
  description :: string
  source :: string
  priority :: string

subsection \<open>Timestamps (\<^verbatim>\<open>utils.format_timestamp\<close>)\<close>

definition format_timestamp :: "real \<Rightarrow> string" where
  "format_timestamp seconds =
     (let hours = py_int (py_floordiv seconds 3600);
          minutes = py_int (py_floordiv (py_mod seconds 3600) 60);
          secs = py_int (py_mod seconds 60)
      in if hours > 0
         then fmt_02d hours @ '':'' @ fmt_02d minutes @ '':'' @ fmt_02d secs
         else fmt_02d minutes @ '':'' @ fmt_02d secs)"

subsection \<open>Transcript renderers (\<^verbatim>\<open>utils.py\<close>)\<close>

text \<open>\<^verbatim>\<open>f"Speaker {i}"\<close>.\<close>

definition speaker_label :: "int \<Rightarrow> string" where
  "speaker_label i = ''Speaker '' @ str_int i"

text \<open>\<^verbatim>\<open>utt.speaker_name or f"Speaker {utt.speaker}"\<close>.\<close>

definition display_name :: "utterance \<Rightarrow> string" where
  "display_name utt =
     (if speaker_name utt \<noteq> [] then speaker_name utt else speaker_label (speaker utt))"

text \<open>The line appended for one utterance by the loop of \<^verbatim>\<open>format_transcript_markdown\<close>.\<close>

definition markdown_line :: "utterance \<Rightarrow> string" where
  "markdown_line utt =
     (let ts = format_timestamp (start utt);
          name = display_name utt
      in ''**['' @ ts @ ''] '' @ name @ '':** '' @ utt_text utt @ NL)"

text \<open>The line appended for one utterance by the loop of \<^verbatim>\<open>format_transcript_text\<close>.\<close>

definition text_line :: "utterance \<Rightarrow> string" where
  "text_line utt =
     (let ts = format_timestamp (start utt);
          name = display_name utt
      in ''['' @ ts @ ''] '' @ name @ '': '' @ utt_text utt)"

text \<open>
  The lines of \<^verbatim>\<open>format_transcript_markdown\<close> up to and including the heading of the
  transcript section. \<open>stem\<close> stands for \<^verbatim>\<open>Path(...).stem\<close> of the standard library. A
  summary object is always truthy, so \<^verbatim>\<open>if summary:\<close> tests for \<^verbatim>\<open>None\<close>.
\<close>

definition summary_lines :: "summary \<Rightarrow> string list" where
  "summary_lines s =
     (let lines = [];
          lines = (if title s \<noteq> [] then lines @ [''## '' @ title s @ NL] else lines);
          lines = (if summary s \<noteq> [] then lines @ [summary s @ NL] else lines);
          lines = (if key_points s \<noteq> []
                   then lines @ [''### Key Points'' @ NL] @ map (\<lambda>point. ''- '' @ point) (key_points s) @ [[]]
                   else lines);
          lines = (if action_items s \<noteq> []
                   then lines @ [''### Action Items'' @ NL] @ map (\<lambda>item. ''- [ ] '' @ item) (action_items s) @ [[]]
                   else lines)
      in lines)"

definition markdown_head :: "(string \<Rightarrow> string) \<Rightarrow> transcript \<Rightarrow> summary option \<Rightarrow> string list" where
  "markdown_head stem t summ =
     (let lines = [];
          source_name = stem (source_file t);
          lines = lines @ [''# Transcript: '' @ source_name @ NL];
          lines = (if duration t > 0
                   then lines @ [''**Duration:** '' @ format_timestamp (duration t) @ NL]
                   else lines);
          lines = (if speakers t \<noteq> []
                   then lines @ [''**Speakers:** '' @ join '', '' (speakers t) @ NL]
                   else lines);
          lines = (case summ of None \<Rightarrow> lines | Some s \<Rightarrow> lines @ summary_lines s);
          lines = lines @ [''---'' @ NL];
          lines = lines @ [''## Transcript'' @ NL]
      in lines)"

text \<open>The lines appended after the heading: the body of the transcript section.\<close>

definition markdown_body :: "transcript \<Rightarrow> string list" where
  "markdown_body t =
     (if utterances t \<noteq> [] then map markdown_line (utterances t) else [raw_text t])"

definition format_transcript_markdown :: "(string \<Rightarrow> string) \<Rightarrow> transcript \<Rightarrow> summary option \<Rightarrow> string" where
  "format_transcript_markdown stem t summ = join NL (markdown_head stem t summ @ markdown_body t)"

definition text_lines :: "transcript \<Rightarrow> string list" where
  "text_lines t =
     (if utterances t \<noteq> [] then map text_line (utterances t) else [raw_text t])"

definition format_transcript_text :: "transcript \<Rightarrow> string" where
  "format_transcript_text t = join NL (text_lines t)"

subsection \<open>The weekly digest (\<^verbatim>\<open>utils.format_weekly_todo_markdown\<close>)\<close>

text \<open>The em dash of the title, as the three bytes of its UTF-8 encoding.\<close>

definition EM_DASH :: string where
  "EM_DASH = [CHR 0xE2, CHR 0x80, CHR 0x94]"

text \<open>The line appended for one item; the three loops of the source have the same body.\<close>

definition item_line :: "action_item \<Rightarrow> string" where
  "item_line item =
     (let src = (if source item \<noteq> [] then '' *(from '' @ source item @ '')*'' else [])
      in ''- [ ] '' @ description item @ src)"

definition weekly_todo_lines :: "action_item list \<Rightarrow> string \<Rightarrow> string list" where
  "weekly_todo_lines items week =
     (let lines = [];
          title = (if week \<noteq> [] then ''# Weekly To-Do '' @ EM_DASH @ '' Week '' @ week
                   else ''# Weekly To-Do'');
          lines = lines @ [title @ NL];
          high = filter (\<lambda>a. priority a = ''high'') items;
          normal = filter (\<lambda>a. priority a = ''normal'') items;
          low = filter (\<lambda>a. priority a = ''low'') items;
          lines = (if high \<noteq> []
                   then lines @ [''## High Priority'' @ NL] @ map item_line high @ [[]]
                   else lines);
          lines = (if normal \<noteq> []
                   then lines @ [''## Tasks'' @ NL] @ map item_line normal @ [[]]
                   else lines);
          lines = (if low \<noteq> []
                   then lines @ [''## Low Priority'' @ NL] @ map item_line low @ [[]]
                   else lines)
      in lines)"

definition format_weekly_todo_markdown :: "action_item list \<Rightarrow> string \<Rightarrow> string" where
  "format_weekly_todo_markdown items week = join NL (weekly_todo_lines items week)"

subsection \<open>The provider's transcript (\<^verbatim>\<open>DeepgramProvider._parse_response\<close>)\<close>

text \<open>
  The response object, as far as \<^verbatim>\<open>_parse_response\<close> reads it: per channel the
  \<^verbatim>\<open>transcript\<close> of each alternative (\<open>None\<close> for a null), the duration of the metadata
  (\<open>None\<close> for no metadata, \<open>Some None\<close> for metadata without a duration), and the
  utterances (\<open>None\<close> when the attribute is missing or null). An utterance without a
  \<^verbatim>\<open>speaker\<close> attribute has \<open>resp_speaker = None\<close>.
\<close>

record resp_utterance =
  resp_speaker :: "int option"
  resp_start :: real
  resp_end :: real
  resp_transcript :: string

record response =
  channels :: "string option list list"
  metadata :: "real option option"
  results_utterances :: "resp_utterance list option"

text \<open>The body of the loop over the response's utterances.\<close>

definition parse_step :: "resp_utterance \<Rightarrow> utterance list \<times> int set \<Rightarrow> utterance list \<times> int set" where
  "parse_step utt acc =
     (let (utts, speaker_set) = acc;
          speaker_idx = (case resp_speaker utt of None \<Rightarrow> 0 | Some i \<Rightarrow> i)
      in (utts @ [\<lparr>speaker = speaker_idx, speaker_name = [], start = resp_start utt,
                    utt_end = resp_end utt, utt_text = resp_transcript utt\<rparr>],
          insert speaker_idx speaker_set))"

definition parse_response :: "response \<Rightarrow> string \<Rightarrow> error + transcript" where
  "parse_response resp src =
     (case list_getitem (channels resp) 0 of
        Inl e \<Rightarrow> Inl e
      | Inr channel \<Rightarrow>
          (case list_getitem channel 0 of
             Inl e \<Rightarrow> Inl e
           | Inr alt \<Rightarrow>
               (let raw = (case alt of None \<Rightarrow> [] | Some s \<Rightarrow> s);
                    dur = (case metadata resp of Some (Some d) \<Rightarrow> d | _ \<Rightarrow> 0);
                    (utts, speaker_set) =
                      (case results_utterances resp of
                         None \<Rightarrow> ([], {})
                       | Some us \<Rightarrow> if us \<noteq> [] then fold parse_step us ([], {}) else ([], {}));
                    spk = map speaker_label (sorted_list_of_set speaker_set)
                in Inr \<lparr>source_file = src, duration = dur, speakers = spk,
                         utterances = utts, raw_text = raw\<rparr>)))"

subsection \<open>Speaker naming (\<^verbatim>\<open>cli._assign_speaker_names\<close>, \<^verbatim>\<open>cli._prompt_speaker_names\<close>)\<close>

text \<open>
  \<^verbatim>\<open>{i: names[i] if i < len(names) else f"Speaker {i}" for i in range(len(speakers))}\<close>
\<close>

definition build_name_map :: "string list \<Rightarrow> nat \<Rightarrow> error + string dict" where
  "build_name_map names n =
     map_result
       (\<lambda>i. if i < int (length names)
            then (case list_getitem names i of Inl e \<Rightarrow> Inl e | Inr v \<Rightarrow> Inr (i, v))
            else Inr (i, speaker_label i))
       (py_range n)"

text \<open>\<^verbatim>\<open>name_map.get(utt.speaker, f"Speaker {utt.speaker}")\<close>\<close>

definition name_for :: "string dict \<Rightarrow> int \<Rightarrow> string" where
  "name_for name_map i = dict_get name_map i (speaker_label i)"

definition rename_utterance :: "string dict \<Rightarrow> utterance \<Rightarrow> utterance" where
  "rename_utterance name_map utt = utt\<lparr>speaker_name := name_for name_map (speaker utt)\<rparr>"

definition assign_speaker_names :: "transcript \<Rightarrow> string list \<Rightarrow> error + transcript" where
  "assign_speaker_names t names =
     (case build_name_map names (length (speakers t)) of
        Inl e \<Rightarrow> Inl e
      | Inr name_map \<Rightarrow>
          (case map_result (dict_getitem name_map) (sorted_keys name_map) of
             Inl e \<Rightarrow> Inl e
           | Inr new_speakers \<Rightarrow>
               (let new_utterances = map (rename_utterance name_map) (utterances t)
                in Inr (t\<lparr>speakers := new_speakers, utterances := new_utterances\<rparr>))))"

text \<open>
  The interactive variant. \<open>ask idx sample\<close> is what \<^verbatim>\<open>Prompt.ask\<close> returns for speaker
  \<open>idx\<close> after its sample was shown: the operator's answer, or the default label. The
  sample is cut after 120 characters of the model's strings.
\<close>

definition sample_of :: "string \<Rightarrow> string" where
  "sample_of txt = take 120 txt @ (if length txt > 120 then ''...'' else [])"

fun collect_samples :: "utterance list \<Rightarrow> string dict \<Rightarrow> string dict" where
  "collect_samples [] speaker_samples = speaker_samples"
| "collect_samples (utt # rest) speaker_samples =
     collect_samples rest
       (if \<not> dict_contains speaker_samples (speaker utt)
        then speaker_samples @ [(speaker utt, sample_of (utt_text utt))]
        else speaker_samples)"

definition prompt_speaker_names :: "(int \<Rightarrow> string \<Rightarrow> string) \<Rightarrow> transcript \<Rightarrow> error + transcript" where
  "prompt_speaker_names ask t =
     (if length (speakers t) \<le> 1 then Inr t
      else
        (let speaker_samples = collect_samples (utterances t) []
         in case map_result
                   (\<lambda>idx. case dict_getitem speaker_samples idx of
                             Inl e \<Rightarrow> Inl e
                           | Inr sample \<Rightarrow> Inr (idx, ask idx sample))
                   (sorted_keys speaker_samples) of
              Inl e \<Rightarrow> Inl e
            | Inr name_map \<Rightarrow>
                (let new_speakers = map (name_for name_map) (sorted_keys name_map);
                     new_utterances = map (rename_utterance name_map) (utterances t)
                 in Inr (t\<lparr>speakers := new_speakers, utterances := new_utterances\<rparr>))))"

subsection \<open>Speaker naming over a store of utterance objects\<close>

text \<open>
  \<^verbatim>\<open>_assign_speaker_names\<close> copies every utterance object and assigns to an attribute of
  the copy. Here the utterance objects live in a store, a transcript holds their
  addresses, \<^verbatim>\<open>model_copy\<close> allocates a fresh object and the assignment updates the
  store at the address of the copy.
\<close>

type_synonym addr = nat
type_synonym store = "utterance list"

definition model_copy :: "store \<Rightarrow> addr \<Rightarrow> store \<times> addr" where
  "model_copy st a = (st @ [st ! a], length st)"

definition set_speaker_name :: "store \<Rightarrow> addr \<Rightarrow> string \<Rightarrow> store" where
  "set_speaker_name st a v = st[a := (st ! a)\<lparr>speaker_name := v\<rparr>]"

fun rename_loop :: "string dict \<Rightarrow> addr list \<Rightarrow> store \<times> addr list \<Rightarrow> store \<times> addr list" where
  "rename_loop name_map [] (st, new_utterances) = (st, new_utterances)"
| "rename_loop name_map (utt # rest) (st, new_utterances) =
     (let (st1, utt_copy) = model_copy st utt;
          st2 = set_speaker_name st1 utt_copy (name_for name_map (speaker (st1 ! utt)))
      in rename_loop name_map rest (st2, new_utterances @ [utt_copy]))"

definition assign_speaker_names_store ::
    "store \<Rightarrow> addr transcript_of \<Rightarrow> string list \<Rightarrow> error + (store \<times> addr transcript_of)" where
  "assign_speaker_names_store st t names =
     (case build_name_map names (length (speakers t)) of
        Inl e \<Rightarrow> Inl e
      | Inr name_map \<Rightarrow>
          (case map_result (dict_getitem name_map) (sorted_keys name_map) of
             Inl e \<Rightarrow> Inl e
           | Inr new_speakers \<Rightarrow>
               (let (st', new_utterances) = rename_loop name_map (utterances t) (st, [])
                in Inr (st', t\<lparr>speakers := new_speakers, utterances := new_utterances\<rparr>))))"

text \<open>The transcript value that a transcript object denotes in a store.\<close>

definition load :: "store \<Rightarrow> addr transcript_of \<Rightarrow> transcript" where
  "load st t =
     \<lparr>source_file = source_file t, duration = duration t, speakers = speakers t,
      utterances = map (\<lambda>a. st ! a) (utterances t), raw_text = raw_text t\<rparr>"

definition well_formed :: "store \<Rightarrow> addr transcript_of \<Rightarrow> bool" where
  "well_formed st t = list_all (\<lambda>a. a < length st) (utterances t)"

subsection \<open>The batch command (\<^verbatim>\<open>cli.batch\<close>)\<close>

text \<open>
  What the command reads: whether the directory exists, the sorted matches of
  \<^verbatim>\<open>*_actions.json\<close>, what \<^verbatim>\<open>json.loads(jf.read_text())\<close> gives for a file (\<open>Inl\<close> the
  message of the exception that is caught), and the reply of the consolidation
  collaborator \<^verbatim>\<open>batch_action_items\<close> (\<open>None\<close> when it raises). What it does: the exit
  code, the lines printed, the calls made to the collaborator and the files written.
\<close>

record 'r batch_env =
  dir_exists :: bool
  json_files :: "string list"
  load_items :: "string \<Rightarrow> string + 'r list"
  batch_action_items :: "'r list \<Rightarrow> string \<Rightarrow> action_item list option"

record 'r batch_result =
  exit_code :: int
  console :: "string list"
  collaborator_calls :: "('r list \<times> string) list"
  files_written :: "(string \<times> string) list"

fun collect_items :: "(string \<Rightarrow> string + 'r list) \<Rightarrow> string list \<Rightarrow> 'r list \<times> string list \<Rightarrow> 'r list \<times> string list" where
  "collect_items ld [] (all_items, out) = (all_items, out)"
| "collect_items ld (jf # rest) (all_items, out) =
     (case ld jf of
        Inr items \<Rightarrow>
          collect_items ld rest
            (all_items @ items, out @ [''  '' @ jf @ '': '' @ str_nat (length items) @ '' items''])
      | Inl e \<Rightarrow>
          collect_items ld rest
            (all_items, out @ [''  [yellow]Skipping '' @ jf @ '': '' @ e @ ''[/yellow]'']))"

definition batch :: "'r batch_env \<Rightarrow> string \<Rightarrow> string option \<Rightarrow> string \<Rightarrow> 'r batch_result" where
  "batch env directory output week =
     (if \<not> dir_exists env
      then \<lparr>exit_code = 1, console = [''[red]Directory not found: '' @ directory @ ''[/red]''],
            collaborator_calls = [], files_written = []\<rparr>
      else if json_files env = []
      then \<lparr>exit_code = 0, console = [''[yellow]No action JSON files found in directory.[/yellow]''],
            collaborator_calls = [], files_written = []\<rparr>
      else
        (let out = [''[bold]Found '' @ str_nat (length (json_files env)) @ '' action file(s).[/bold]''];
             (all_items, out) = collect_items (load_items env) (json_files env) ([], out)
         in if all_items = []
            then \<lparr>exit_code = 0, console = out @ [''[yellow]No action items found.[/yellow]''],
                  collaborator_calls = [], files_written = []\<rparr>
            else
              (let out = out @ [''  Consolidating action items...'']
               in case batch_action_items env all_items week of
                    None \<Rightarrow> \<lparr>exit_code = 1, console = out,
                              collaborator_calls = [(all_items, week)], files_written = []\<rparr>
                  | Some consolidated \<Rightarrow>
                      (let out = out @ [''  [green]'' @ str_nat (length consolidated) @ '' consolidated items.[/green]''];
                           out_file = (case output of
                                         Some p \<Rightarrow> p
                                       | None \<Rightarrow> ''output/weekly_todo'' @ (if week \<noteq> [] then ''_week'' @ week else []) @ ''.md'')
                       in \<lparr>exit_code = 0,
                           console = out @ [NL @ ''[bold green]Output:[/bold green] '' @ out_file],
                           collaborator_calls = [(all_items, week)],
                           files_written = [(out_file, format_weekly_todo_markdown consolidated week)]\<rparr>))))"

text \<open>
  The digest in the spec's words (4.3): one block per priority group, made of a heading,
  one line per item of the group and an empty line; an empty group gives no block.
\<close>

definition digest_group :: "string \<Rightarrow> action_item list \<Rightarrow> string list" where
  "digest_group heading members =
     (if members = [] then [] else [heading @ NL] @ map item_line members @ [[]])"

subsection \<open>Example inputs\<close>

text \<open>The transcript of the spec's end-to-end example, and a response that gives it.\<close>

definition example_utterances :: "utterance list" where
  "example_utterances =
     [\<lparr>speaker = 0, speaker_name = [], start = 0, utt_end = 2, utt_text = ''Hello''\<rparr>,
      \<lparr>speaker = 1, speaker_name = [], start = 2, utt_end = 4, utt_text = ''Hi there''\<rparr>]"

definition example_transcript :: transcript where
  "example_transcript =
     \<lparr>source_file = ''talk.wav'', duration = 4, speakers = [''Speaker 0'', ''Speaker 1''],
      utterances = example_utterances, raw_text = ''Hello Hi there''\<rparr>"

definition example_response :: response where
  "example_response =
     \<lparr>channels = [[Some ''Hello Hi there'']], metadata = Some (Some 4),
      results_utterances =
        Some [\<lparr>resp_speaker = Some 0, resp_start = 0, resp_end = 2, resp_transcript = ''Hello''\<rparr>,
              \<lparr>resp_speaker = Some 1, resp_start = 2, resp_end = 4, resp_transcript = ''Hi there''\<rparr>]\<rparr>"

text \<open>The same transcript as an object whose utterances are the objects 0 and 1 of a store.\<close>

definition example_object :: "addr transcript_of" where
  "example_object =
     \<lparr>source_file = ''talk.wav'', duration = 4, speakers = [''Speaker 0'', ''Speaker 1''],
      utterances = [0, 1], raw_text = ''Hello Hi there''\<rparr>"

text \<open>A response whose only utterance is attributed to speaker 1.\<close>

definition gap_response :: response where
  "gap_response =
     \<lparr>channels = [[Some ''Hi there'']], metadata = None,
      results_utterances =
        Some [\<lparr>resp_speaker = Some 1, resp_start = 0, resp_end = 2, resp_transcript = ''Hi there''\<rparr>]\<rparr>"

definition gap_transcript :: transcript where
  "gap_transcript =
     \<lparr>source_file = ''talk.wav'', duration = 0, speakers = [''Speaker 1''],
      utterances = [\<lparr>speaker = 1, speaker_name = [], start = 0, utt_end = 2, utt_text = ''Hi there''\<rparr>],
      raw_text = ''Hi there''\<rparr>"

definition example_items :: "action_item list" where
  "example_items =
     [\<lparr>description = ''Read chapter 2'', source = ''week1.mp4'', priority = ''normal''\<rparr>,
      \<lparr>description = ''Submit essay'', source = [], priority = ''high''\<rparr>,
      \<lparr>description = ''Optional quiz'', source = ''week1.mp4'', priority = ''low''\<rparr>,
      \<lparr>description = ''Email tutor'', source = ''week2.mp4'', priority = ''high''\<rparr>]"

text \<open>An existing directory without any sidecar file.\<close>

definition empty_dir_env :: "action_item batch_env" where
  "empty_dir_env =
     \<lparr>dir_exists = True, json_files = [], load_items = (\<lambda>jf. Inl ''unreadable''),
      batch_action_items = (\<lambda>all_items week. None)\<rparr>"

section \<open>Verification\<close>

subsection \<open>Timestamp arithmetic\<close>

lemma py_int_of_int: "py_int (of_int k) = k"
  by (simp add: py_int_def)

lemma floor_div_const: "0 < b \<Longrightarrow> \<lfloor>(x::real) / of_int b\<rfloor> = \<lfloor>x\<rfloor> div b"
  by (simp add: floor_divide_real_eq_div)

lemma py_floordiv_floor: "py_int (py_floordiv x 3600) = \<lfloor>x\<rfloor> div 3600"
  using floor_div_const [of 3600 x] by (simp add: py_floordiv_def py_int_of_int)

lemma py_mod_60: "py_int (py_mod x 60) = \<lfloor>x\<rfloor> mod 60"
proof -
  have f: "\<lfloor>x / 60\<rfloor> = \<lfloor>x\<rfloor> div 60" using floor_div_const [of 60 x] by simp
  have "py_mod x 60 = x - of_int (60 * (\<lfloor>x\<rfloor> div 60))" by (simp add: py_mod_def f)
  then have fl: "\<lfloor>py_mod x 60\<rfloor> = \<lfloor>x\<rfloor> - 60 * (\<lfloor>x\<rfloor> div 60)"
    by (simp only: floor_diff_of_int)
  have m: "\<lfloor>x\<rfloor> - 60 * (\<lfloor>x\<rfloor> div 60) = \<lfloor>x\<rfloor> mod 60" by (simp add: minus_mult_div_eq_mod)
  have nn: "0 \<le> \<lfloor>py_mod x 60\<rfloor>" using fl m by simp
  then have "\<not> py_mod x 60 < 0" by (simp add: not_less)
  then show ?thesis using fl m by (simp add: py_int_def)
qed

lemma py_mod_3600_60: "py_int (py_floordiv (py_mod x 3600) 60) = \<lfloor>x\<rfloor> mod 3600 div 60"
proof -
  have f: "\<lfloor>x / 3600\<rfloor> = \<lfloor>x\<rfloor> div 3600" using floor_div_const [of 3600 x] by simp
  have "py_mod x 3600 = x - of_int (3600 * (\<lfloor>x\<rfloor> div 3600))" by (simp add: py_mod_def f)
  then have fl: "\<lfloor>py_mod x 3600\<rfloor> = \<lfloor>x\<rfloor> - 3600 * (\<lfloor>x\<rfloor> div 3600)"
    by (simp only: floor_diff_of_int)
  have m: "\<lfloor>x\<rfloor> - 3600 * (\<lfloor>x\<rfloor> div 3600) = \<lfloor>x\<rfloor> mod 3600" by (simp add: minus_mult_div_eq_mod)
  have "\<lfloor>py_mod x 3600 / 60\<rfloor> = \<lfloor>py_mod x 3600\<rfloor> div 60"
    using floor_div_const [of 60 "py_mod x 3600"] by simp
  then show ?thesis using fl m by (simp add: py_floordiv_def py_int_of_int)
qed

lemma format_timestamp_floor:
  "format_timestamp s =
     (if \<lfloor>s\<rfloor> div 3600 > 0
      then fmt_02d (\<lfloor>s\<rfloor> div 3600) @ '':'' @ fmt_02d (\<lfloor>s\<rfloor> mod 3600 div 60) @ '':'' @ fmt_02d (\<lfloor>s\<rfloor> mod 60)
      else fmt_02d (\<lfloor>s\<rfloor> mod 3600 div 60) @ '':'' @ fmt_02d (\<lfloor>s\<rfloor> mod 60))"
  by (simp add: format_timestamp_def Let_def py_floordiv_floor py_mod_60 py_mod_3600_60)

lemma str_nat_small: "n < 10 \<Longrightarrow> str_nat n = [digit_char n]"
  by (simp add: str_nat.simps)

lemma str_nat_two: "10 \<le> n \<Longrightarrow> n < 100 \<Longrightarrow> str_nat n = [digit_char (n div 10), digit_char (n mod 10)]"
  by (subst str_nat.simps) (simp add: str_nat_small)

lemma length_str_nat_ge2: "10 \<le> n \<Longrightarrow> 2 \<le> length (str_nat n)"
  by (subst str_nat.simps) (simp, subst str_nat.simps, simp)

lemma fmt_02d_two_digits:
  assumes "0 \<le> k" "k < 100"
  shows "fmt_02d k = [digit_char (nat k div 10), digit_char (nat k mod 10)]"
proof (cases "nat k < 10")
  case True
  then show ?thesis using assms by (simp add: fmt_02d_def str_nat_small digit_char_def numeral_2_eq_2)
next
  case False
  then have "10 \<le> nat k" "nat k < 100" using assms by auto
  then show ?thesis using assms by (simp add: fmt_02d_def str_nat_two)
qed

lemma fmt_02d_hours:
  assumes "0 < k"
  shows "fmt_02d k = (if k < 10 then ''0'' else []) @ str_nat (nat k)"
proof (cases "k < 10")
  case True
  then show ?thesis using assms by (simp add: fmt_02d_def str_nat_small numeral_2_eq_2)
next
  case False
  then have "2 \<le> length (str_nat (nat k))" using length_str_nat_ge2 [of "nat k"] by simp
  then show ?thesis using assms False by (simp add: fmt_02d_def)
qed

lemma format_timestamp_of_floor: "format_timestamp (of_int \<lfloor>s\<rfloor>) = format_timestamp s"
  by (simp add: format_timestamp_floor)

subsection \<open>Ranges, dictionaries and the name map\<close>

lemma map_result_Inr:
  "(\<And>x. x \<in> set xs \<Longrightarrow> f x = Inr (g x)) \<Longrightarrow> map_result f xs = Inr (map g xs)"
  by (induction xs) simp_all

lemma py_range_set: "set (py_range n) = {i. 0 \<le> i \<and> i < int n}"
proof -
  have "\<And>i. 0 \<le> i \<Longrightarrow> i < int n \<Longrightarrow> i \<in> int ` {0..<n}"
  proof -
    fix i :: int assume "0 \<le> i" "i < int n"
    then have "i = int (nat i)" "nat i \<in> {0..<n}" by auto
    then show "i \<in> int ` {0..<n}" by (rule image_eqI)
  qed
  then show ?thesis by (auto simp: py_range_def)
qed

lemma py_range_length: "length (py_range n) = n"
  by (simp add: py_range_def)

lemma py_range_nth: "i < n \<Longrightarrow> py_range n ! i = int i"
  by (simp add: py_range_def)

lemma py_range_Suc: "py_range (Suc n) = py_range n @ [int n]"
  by (simp add: py_range_def)

lemma py_range_sorted: "sorted (py_range n)"
proof (induction n)
  case 0
  show ?case by (simp add: py_range_def)
next
  case (Suc n)
  then show ?case by (auto simp: py_range_Suc sorted_append py_range_set)
qed

lemma keys_of_tabulate: "map fst (map (\<lambda>i. (i, f i)) xs) = xs"
  by (induction xs) simp_all

lemma sorted_keys_range: "sorted_keys (map (\<lambda>i. (i, f i)) (py_range n)) = py_range n"
  unfolding sorted_keys_def keys_of_tabulate by (rule sorted_sort_id) (rule py_range_sorted)

lemma map_of_tabulate:
  "map_of (map (\<lambda>i. (i, f i)) xs) k = (if k \<in> set xs then Some (f k) else None)"
  by (induction xs) auto

lemma map_of_range:
  "map_of (map (\<lambda>i. (i, f i)) (py_range n)) k = (if 0 \<le> k \<and> k < int n then Some (f k) else None)"
  by (simp add: map_of_tabulate py_range_set)

lemma list_getitem_in_range:
  "0 \<le> i \<Longrightarrow> i < int (length xs) \<Longrightarrow> list_getitem xs i = Inr (xs ! nat i)"
  by (simp add: list_getitem_def)

lemma build_name_map_eq:
  "build_name_map names n =
     Inr (map (\<lambda>i. (i, if i < int (length names) then names ! nat i else speaker_label i)) (py_range n))"
  unfolding build_name_map_def
  by (rule map_result_Inr) (auto simp: py_range_set list_getitem_in_range)

lemma new_speakers_eq:
  "map_result (dict_getitem (map (\<lambda>i. (i, f i)) (py_range n))) (py_range n) = Inr (map f (py_range n))"
  by (rule map_result_Inr) (simp add: dict_getitem_def map_of_range py_range_set)

lemma name_for_range:
  "name_for (map (\<lambda>i. (i, if i < int (length names) then names ! nat i else speaker_label i)) (py_range n)) k =
     (if 0 \<le> k \<and> k < int n \<and> k < int (length names) then names ! nat k else speaker_label k)"
  by (simp add: name_for_def dict_get_def map_of_range)

lemma assign_speaker_names_eq:
  "assign_speaker_names t names =
     Inr (t\<lparr>speakers := map (\<lambda>i. if i < int (length names) then names ! nat i else speaker_label i)
                           (py_range (length (speakers t))),
            utterances := map (\<lambda>u. u\<lparr>speaker_name :=
                                 (if 0 \<le> speaker u \<and> speaker u < int (length (speakers t))
                                     \<and> speaker u < int (length names)
                                  then names ! nat (speaker u) else speaker_label (speaker u))\<rparr>)
                             (utterances t)\<rparr>)"
  by (simp add: assign_speaker_names_def build_name_map_eq sorted_keys_range new_speakers_eq
      rename_utterance_def name_for_range Let_def)

subsection \<open>The speakers of the provider and of the prompts\<close>

lemma fold_parse_step:
  "fold parse_step us (utts, S) =
     (utts @ map (\<lambda>u. \<lparr>speaker = (case resp_speaker u of None \<Rightarrow> 0 | Some i \<Rightarrow> i), speaker_name = [],
                        start = resp_start u, utt_end = resp_end u, utt_text = resp_transcript u\<rparr>) us,
      S \<union> (\<lambda>u. case resp_speaker u of None \<Rightarrow> 0 | Some i \<Rightarrow> i) ` set us)"
  by (induction us arbitrary: utts S) (simp_all add: parse_step_def Let_def)

lemma fold_parse_step_speakers:
  "fold parse_step us ([], {}) = (utts, S) \<Longrightarrow> S = speaker ` set utts \<and> finite S"
  by (auto simp: fold_parse_step image_image)

lemma parse_response_speakers:
  assumes "parse_response resp src = Inr t"
  shows "speakers t = map speaker_label (sorted_list_of_set (speaker ` set (utterances t)))"
proof -
  obtain utts S where us: "(case results_utterances resp of
                         None \<Rightarrow> ([], {})
                       | Some us \<Rightarrow> if us \<noteq> [] then fold parse_step us ([], {}) else ([], {})) = (utts, S)"
    by (cases "(case results_utterances resp of
                         None \<Rightarrow> ([], {})
                       | Some us \<Rightarrow> if us \<noteq> [] then fold parse_step us ([], {}) else ([], {}))") 
  then have S: "S = speaker ` set utts"
    using fold_parse_step_speakers by (auto split: option.splits if_splits)
  from assms us have "speakers t = map speaker_label (sorted_list_of_set S)" "utterances t = utts"
    by (auto simp: parse_response_def Let_def split: sum.splits)
  with S show ?thesis by simp
qed

lemma dict_contains_keys: "dict_contains d k = (k \<in> set (map fst d))"
  by (simp add: dict_contains_def map_of_eq_None_iff)

lemma collect_samples_keys:
  "set (map fst (collect_samples us d)) = set (map fst d) \<union> speaker ` set us"
  by (induction us arbitrary: d) (auto simp: dict_contains_keys)

lemma collect_samples_distinct:
  "distinct (map fst d) \<Longrightarrow> distinct (map fst (collect_samples us d))"
  by (induction us arbitrary: d) (auto simp: dict_contains_keys)

lemma sorted_keys_set: "set (sorted_keys d) = set (map fst d)"
  by (simp add: sorted_keys_def)

lemma sorted_keys_length: "length (sorted_keys d) = length d"
  by (simp add: sorted_keys_def)

lemma dict_getitem_key:
  "k \<in> set (map fst d) \<Longrightarrow> dict_getitem d k = Inr (the (map_of d k))"
  by (auto simp: dict_getitem_def map_of_eq_None_iff split: option.splits)

lemma prompt_name_map:
  "map_result (\<lambda>idx. case dict_getitem d idx of Inl e \<Rightarrow> Inl e | Inr sample \<Rightarrow> Inr (idx, ask idx sample))
       (sorted_keys d) =
     Inr (map (\<lambda>idx. (idx, ask idx (the (map_of d idx)))) (sorted_keys d))"
  by (rule map_result_Inr) (simp add: sorted_keys_set dict_getitem_key)

lemma sorted_keys_tabulate_sorted:
  "sorted_keys (map (\<lambda>i. (i, f i)) (sorted_keys d)) = sorted_keys d"
proof -
  have "sorted (sorted_keys d)" by (simp add: sorted_keys_def)
  then show ?thesis
    unfolding sorted_keys_def [of "map (\<lambda>i. (i, f i)) (sorted_keys d)"] keys_of_tabulate
    by (rule sorted_sort_id)
qed

lemma prompt_speaker_names_eq:
  assumes "1 < length (speakers t)"
  shows "prompt_speaker_names ask t =
     Inr (t\<lparr>speakers := map (name_for (map (\<lambda>idx. (idx, ask idx (the (map_of (collect_samples (utterances t) []) idx))))
                                         (sorted_keys (collect_samples (utterances t) []))))
                           (sorted_keys (collect_samples (utterances t) [])),
            utterances := map (rename_utterance (map (\<lambda>idx. (idx, ask idx (the (map_of (collect_samples (utterances t) []) idx))))
                                         (sorted_keys (collect_samples (utterances t) []))))
                              (utterances t)\<rparr>)"
  using assms
  by (simp add: prompt_speaker_names_def Let_def prompt_name_map sorted_keys_tabulate_sorted)

lemma prompt_speaker_names_shape:
  "\<exists>r. prompt_speaker_names ask t = Inr r
     \<and> map speaker (utterances r) = map speaker (utterances t)
     \<and> length (speakers r) =
         (if length (speakers t) \<le> 1 then length (speakers t) else card (speaker ` set (utterances t)))"
proof (cases "length (speakers t) \<le> 1")
  case True
  then show ?thesis by (simp add: prompt_speaker_names_def)
next
  case False
  then have gt: "1 < length (speakers t)" by simp
  have d: "distinct (map fst (collect_samples (utterances t) []))"
    by (rule collect_samples_distinct) simp
  have "length (collect_samples (utterances t) []) = card (set (map fst (collect_samples (utterances t) [])))"
    using distinct_card [OF d] by simp
  also have "\<dots> = card (speaker ` set (utterances t))"
    by (simp only: collect_samples_keys) simp
  finally have len: "length (collect_samples (utterances t) []) = card (speaker ` set (utterances t))" .
  show ?thesis
    using False len
    by (simp add: prompt_speaker_names_eq [OF gt] sorted_keys_length rename_utterance_def comp_def)
qed

lemma card_index_range: "card (int ` {0..<k}) = k"
  by (simp add: card_image)

subsection \<open>Copies in the store\<close>

lemma copy_and_rename:
  assumes "a < length st"
  shows "set_speaker_name (fst (model_copy st a)) (snd (model_copy st a))
           (name_for nm (speaker (fst (model_copy st a) ! a))) = st @ [rename_utterance nm (st ! a)]"
  using assms by (simp add: model_copy_def set_speaker_name_def rename_utterance_def nth_append)

lemma rename_loop_eq:
  "\<forall>a \<in> set as. a < length st \<Longrightarrow>
   rename_loop nm as (st, acc) =
     (st @ map (\<lambda>a. rename_utterance nm (st ! a)) as, acc @ [length st..<length st + length as])"
proof (induction as arbitrary: st acc)
  case Nil
  then show ?case by simp
next
  case (Cons a as)
  let ?st2 = "st @ [rename_utterance nm (st ! a)]"
  have a: "a < length st" using Cons.prems by simp
  have valid: "\<forall>b \<in> set as. b < length ?st2" using Cons.prems by auto
  have step: "rename_loop nm (a # as) (st, acc) = rename_loop nm as (?st2, acc @ [length st])"
    using copy_and_rename [OF a, of nm] by (simp add: model_copy_def split_def Let_def)
  have same: "map (\<lambda>b. rename_utterance nm (?st2 ! b)) as = map (\<lambda>b. rename_utterance nm (st ! b)) as"
    using Cons.prems by (simp add: nth_append)
  have idx: "[length st] @ [length ?st2..<length ?st2 + length as] = [length st..<length st + length (a # as)]"
    by (simp add: upt_rec)
  show ?case
    unfolding step Cons.IH [OF valid] same using idx by simp
qed

lemma well_formed_iff: "well_formed st t = (\<forall>a \<in> set (utterances t). a < length st)"
  by (simp add: well_formed_def list_all_iff)

lemma assign_speaker_names_store_eq:
  assumes "well_formed st t"
  shows "assign_speaker_names_store st t names =
     Inr (st @ map (\<lambda>a. rename_utterance
                          (map (\<lambda>i. (i, if i < int (length names) then names ! nat i else speaker_label i))
                               (py_range (length (speakers t)))) (st ! a)) (utterances t),
          t\<lparr>speakers := map (\<lambda>i. if i < int (length names) then names ! nat i else speaker_label i)
                           (py_range (length (speakers t))),
            utterances := [length st..<length st + length (utterances t)]\<rparr>)"
  using assms
  by (simp add: assign_speaker_names_store_def build_name_map_eq sorted_keys_range new_speakers_eq
      rename_loop_eq well_formed_iff)

lemma load_extended:
  "\<forall>a \<in> set (utterances t). a < length st \<Longrightarrow> load (st @ new) t = load st t"
  by (simp add: load_def nth_append)

lemma load_fresh:
  "load (st @ new) (t\<lparr>speakers := sp, utterances := [length st..<length st + length new]\<rparr>) =
     \<lparr>source_file = source_file t, duration = duration t, speakers = sp,
      utterances = new, raw_text = raw_text t\<rparr>"
proof -
  have "map (\<lambda>a. (st @ new) ! a) [length st..<length st + length new] = new"
    by (rule nth_equalityI) (simp_all add: nth_append)
  then show ?thesis by (simp add: load_def)
qed

subsection \<open>Joined lines and grouped items\<close>

lemma mset_three_groups:
  assumes "\<forall>a \<in> set items. priority a = ''high'' \<or> priority a = ''normal'' \<or> priority a = ''low''"
  shows "mset (filter (\<lambda>a. priority a = ''high'') items @ filter (\<lambda>a. priority a = ''normal'') items
            @ filter (\<lambda>a. priority a = ''low'') items) = mset items"
  using assms by (induction items) auto

lemma weekly_todo_lines_blocks:
  "weekly_todo_lines items week =
     [(if week \<noteq> [] then ''# Weekly To-Do '' @ EM_DASH @ '' Week '' @ week else ''# Weekly To-Do'') @ NL]
     @ digest_group ''## High Priority'' (filter (\<lambda>a. priority a = ''high'') items)
     @ digest_group ''## Tasks'' (filter (\<lambda>a. priority a = ''normal'') items)
     @ digest_group ''## Low Priority'' (filter (\<lambda>a. priority a = ''low'') items)"
  by (simp add: weekly_todo_lines_def digest_group_def Let_def)

subsection \<open>The examples, evaluated\<close>

lemmas example_defs = example_transcript_def example_utterances_def example_response_def
  example_object_def gap_response_def gap_transcript_def

lemmas str_defs = speaker_label_def str_int_def str_nat.simps digit_char_def

lemma format_timestamp_2: "format_timestamp 2 = ''00:02''"
  by (simp add: format_timestamp_def py_int_def py_floordiv_def py_mod_def fmt_02d_def str_defs)

lemma format_timestamp_0: "format_timestamp 0 = ''00:00''"
  by (simp add: format_timestamp_def py_int_def py_floordiv_def py_mod_def fmt_02d_def str_defs)

lemma end_to_end_example:
  "\<exists>r. assign_speaker_names example_transcript [''Alice'', ''Bob''] = Inr r
     \<and> format_transcript_text r = ''[00:00] Alice: Hello'' @ NL @ ''[00:02] Bob: Hi there''"
  by (simp add: assign_speaker_names_eq py_range_def example_defs format_transcript_text_def
      text_lines_def text_line_def display_name_def format_timestamp_0 format_timestamp_2)

lemma parse_example: "parse_response example_response ''talk.wav'' = Inr example_transcript"
  by (simp add: parse_response_def list_getitem_def example_defs parse_step_def Let_def str_defs)

lemma parse_gap: "parse_response gap_response ''talk.wav'' = Inr gap_transcript"
  by (simp add: parse_response_def list_getitem_def example_defs parse_step_def Let_def str_defs)

lemma example_indices: "speaker ` set (utterances example_transcript) = int ` {0..<2}"
  by (auto simp: example_defs)

subsection \<open>Raw-text rendering\<close>

text \<open>
  Claim C1 asks that rendering with \<^verbatim>\<open>rawText\<close> true emits only the utterance texts, with
  no \<^verbatim>\<open>[\<close> timestamp marker and no speaker name. The code does not do this:
  \<^verbatim>\<open>cli.transcribe\<close> calls \<^verbatim>\<open>format_transcript_raw_text\<close>, which \<^verbatim>\<open>utils.py\<close> does not
  define, and passes a keyword \<^verbatim>\<open>raw_text\<close> that \<^verbatim>\<open>format_transcript_markdown\<close> does not
  take. The renderers that \<^verbatim>\<open>utils.py\<close> has know no raw mode: for a transcript with at
  least one utterance they emit one line per utterance, every markdown line begins
  with \<^verbatim>\<open>**[\<close> and every plain-text line with \<^verbatim>\<open>[\<close>, whatever the utterance texts are.
\<close>

theorem renderers_always_prefix:
  assumes "utterances t \<noteq> []"
  shows "length (markdown_body t) = length (utterances t)
     \<and> length (text_lines t) = length (utterances t)
     \<and> (\<forall>i < length (utterances t).
            take 3 (markdown_body t ! i) = ''**['' \<and> markdown_body t ! i \<noteq> utt_text (utterances t ! i) @ NL
          \<and> take 1 (text_lines t ! i) = ''['' \<and> text_lines t ! i \<noteq> utt_text (utterances t ! i))
     \<and> format_transcript_markdown stem t summ = join NL (markdown_head stem t summ @ markdown_body t)
     \<and> format_transcript_text t = join NL (text_lines t)"
proof -
  have longer_md: "\<And>pre name words. ''**['' @ pre @ ''] '' @ name @ '':** '' @ words @ NL \<noteq> words @ NL"
  proof
    fix pre name words :: string
    assume "''**['' @ pre @ ''] '' @ name @ '':** '' @ words @ NL = words @ NL"
    then have "length (''**['' @ pre @ ''] '' @ name @ '':** '' @ words @ NL) = length (words @ NL)"
      by (rule arg_cong)
    then show False by simp
  qed
  have longer_txt: "\<And>pre name words. ''['' @ pre @ ''] '' @ name @ '': '' @ words \<noteq> words"
  proof
    fix pre name words :: string
    assume "''['' @ pre @ ''] '' @ name @ '': '' @ words = words"
    then have "length (''['' @ pre @ ''] '' @ name @ '': '' @ words) = length words"
      by (rule arg_cong)
    then show False by simp
  qed
  show ?thesis
    using assms longer_md longer_txt
    by (simp add: markdown_body_def text_lines_def markdown_line_def text_line_def
        format_transcript_markdown_def format_transcript_text_def)
qed

text \<open>
  On the example transcript: the two lines that each renderer of \<^verbatim>\<open>utils.py\<close> emits carry
  the timestamp and the speaker label.
\<close>

theorem renderers_always_prefix_witness:
  "utterances example_transcript \<noteq> []
   \<and> take 3 (markdown_body example_transcript ! 0) = ''**[''
   \<and> take 1 (text_lines example_transcript ! 1) = ''[''
   \<and> format_transcript_text example_transcript =
         ''[00:00] Speaker 0: Hello'' @ NL @ ''[00:02] Speaker 1: Hi there''"
proof -
  have h: "utterances example_transcript \<noteq> []" by (simp add: example_defs)
  note w = renderers_always_prefix [OF h]
  have lines: "text_lines example_transcript =
      [''[00:00] Speaker 0: Hello'', ''[00:02] Speaker 1: Hi there'']"
    by (simp add: text_lines_def text_line_def display_name_def example_defs str_defs
        format_timestamp_0 format_timestamp_2)
  have a: "take 3 (markdown_body example_transcript ! 0) = ''**[''"
    using w [THEN conjunct2, THEN conjunct2, THEN conjunct1] by (simp add: example_defs)
  have b: "take 1 (text_lines example_transcript ! 1) = ''[''"
    using w [THEN conjunct2, THEN conjunct2, THEN conjunct1] by (simp add: example_defs)
  have c: "format_transcript_text example_transcript =
         ''[00:00] Speaker 0: Hello'' @ NL @ ''[00:02] Speaker 1: Hi there''"
    using w [THEN conjunct2, THEN conjunct2, THEN conjunct2, THEN conjunct2] lines by simp
  show ?thesis using h a b c by simp
qed

subsection \<open>Timestamps\<close>

text \<open>
  Claim C2, as the code has it: \<^verbatim>\<open>format_timestamp\<close> rounds its argument down to whole
  seconds (truncation, for a non-negative argument); below one hour the result is
  \<^verbatim>\<open>MM:SS\<close>, both components two digits; from one hour on it is \<^verbatim>\<open>HH:MM:SS\<close>, where the
  hours too are padded with a zero to two digits (and take more digits from 100 hours
  on). The four examples: \<^verbatim>\<open>00:00\<close>, \<^verbatim>\<open>00:59\<close>, \<^verbatim>\<open>01:00\<close> and, for 3661 seconds,
  \<^verbatim>\<open>01:01:01\<close>.
\<close>

theorem format_timestamp_padded:
  "format_timestamp s = format_timestamp (of_int \<lfloor>s\<rfloor>)
    \<and> (let h = nat (\<lfloor>s\<rfloor> div 3600); m = nat (\<lfloor>s\<rfloor> mod 3600 div 60); sec = nat (\<lfloor>s\<rfloor> mod 60)
       in (s < 3600 \<longrightarrow> format_timestamp s =
             [digit_char (m div 10), digit_char (m mod 10), CHR '':'',
              digit_char (sec div 10), digit_char (sec mod 10)])
        \<and> (3600 \<le> s \<longrightarrow> format_timestamp s =
             (if h < 10 then ''0'' else []) @ str_nat h @
             [CHR '':'', digit_char (m div 10), digit_char (m mod 10), CHR '':'',
              digit_char (sec div 10), digit_char (sec mod 10)]))
    \<and> format_timestamp 0 = ''00:00'' \<and> format_timestamp 59 = ''00:59''
    \<and> format_timestamp 60 = ''01:00'' \<and> format_timestamp 3661 = ''01:01:01''"
proof -
  let ?k = "\<lfloor>s\<rfloor>"
  have m_rng: "0 \<le> ?k mod 3600 div 60" "?k mod 3600 div 60 < 100"
    by (simp_all add: pos_imp_zdiv_nonneg_iff div_less_iff_less_mult)
  have s_rng: "0 \<le> ?k mod 60" "?k mod 60 < 100"
    using pos_mod_bound [of 60 ?k] by simp_all
  note mm = fmt_02d_two_digits [OF m_rng]
  note ss = fmt_02d_two_digits [OF s_rng]
  have lt: "s < 3600 \<Longrightarrow> \<not> 0 < ?k div 3600"
  proof -
    assume "s < 3600"
    then have "?k < 3600" by (simp add: floor_less_iff)
    then show ?thesis by (simp add: pos_imp_zdiv_pos_iff)
  qed
  have ge: "3600 \<le> s \<Longrightarrow> 0 < ?k div 3600"
  proof -
    assume "3600 \<le> s"
    then have "3600 \<le> ?k" by (simp add: le_floor_iff)
    then show ?thesis by (simp add: pos_imp_zdiv_pos_iff)
  qed
  have hh: "0 < ?k div 3600 \<Longrightarrow> fmt_02d (?k div 3600) =
      (if nat (?k div 3600) < 10 then ''0'' else []) @ str_nat (nat (?k div 3600))"
  proof -
    assume h: "0 < ?k div 3600"
    have "(?k div 3600 < 10) = (nat (?k div 3600) < 10)" using h by linarith
    then show ?thesis using fmt_02d_hours [OF h] by simp
  qed
  have A: "format_timestamp s = format_timestamp (of_int ?k)"
    by (simp add: format_timestamp_of_floor)
  have B: "s < 3600 \<longrightarrow> format_timestamp s =
             [digit_char (nat (?k mod 3600 div 60) div 10), digit_char (nat (?k mod 3600 div 60) mod 10), CHR '':'',
              digit_char (nat (?k mod 60) div 10), digit_char (nat (?k mod 60) mod 10)]"
    using lt by (simp add: format_timestamp_floor mm ss)
  have C: "3600 \<le> s \<longrightarrow> format_timestamp s =
             (if nat (?k div 3600) < 10 then ''0'' else []) @ str_nat (nat (?k div 3600)) @
             [CHR '':'', digit_char (nat (?k mod 3600 div 60) div 10), digit_char (nat (?k mod 3600 div 60) mod 10), CHR '':'',
              digit_char (nat (?k mod 60) div 10), digit_char (nat (?k mod 60) mod 10)]"
    using ge hh by (simp add: format_timestamp_floor mm ss)
  have D: "format_timestamp 0 = ''00:00'' \<and> format_timestamp 59 = ''00:59''
    \<and> format_timestamp 60 = ''01:00'' \<and> format_timestamp 3661 = ''01:01:01''"
    by (simp add: format_timestamp_def py_int_def py_floordiv_def py_mod_def fmt_02d_def
        str_nat.simps digit_char_def)
  show ?thesis unfolding Let_def using A B C D by blast
qed

text \<open>
  C2 at 3725.5 seconds, which is at least one hour.
\<close>

theorem format_timestamp_padded_witness:
  "(3600::real) \<le> 7451 / 2 \<and> format_timestamp (7451 / 2) = ''01:02:05''"
proof -
  note w = format_timestamp_padded [of "7451 / 2", THEN conjunct2, THEN conjunct1]
  show ?thesis using w by (simp add: Let_def str_nat.simps digit_char_def)
qed

text \<open>
  Claim C2 as stated asks for unpadded hours and \<^verbatim>\<open>format_timestamp(3661) = "1:01:01"\<close>;
  the code pads the hours with \<^verbatim>\<open>{hours:02d}\<close>.
\<close>

theorem format_timestamp_unpadded_hours_counterexample:
  "format_timestamp 3661 \<noteq> ''1:01:01''"
  by (simp add: format_timestamp_def py_int_def py_floordiv_def py_mod_def fmt_02d_def
      str_nat.simps digit_char_def)

subsection \<open>Speaker indices stay below the number of speakers\<close>

text \<open>
  Claim C3, amended: for a transcript produced by \<^verbatim>\<open>_parse_response\<close> whose distinct
  speaker indices are exactly \<open>0, \<dots>, k - 1\<close>, and for every name list and every
  sequence of answers to the prompts, both naming operations return a transcript in
  which every utterance's speaker index is at least 0 and below the length of the
  speakers list.
\<close>

theorem naming_keeps_speaker_indices_in_range:
  assumes "parse_response resp src = Inr t"
      and "speaker ` set (utterances t) = int ` {0..<k}"
  shows "(\<exists>r. assign_speaker_names t names = Inr r
            \<and> (\<forall>u \<in> set (utterances r). 0 \<le> speaker u \<and> speaker u < int (length (speakers r))))
       \<and> (\<exists>r. prompt_speaker_names ask t = Inr r
            \<and> (\<forall>u \<in> set (utterances r). 0 \<le> speaker u \<and> speaker u < int (length (speakers r))))"
proof -
  have len: "length (speakers t) = k"
    using parse_response_speakers [OF assms(1)] assms(2) by (simp add: card_index_range)
  have rng: "\<And>u. u \<in> set (utterances t) \<Longrightarrow> 0 \<le> speaker u \<and> speaker u < int k"
  proof -
    fix u assume "u \<in> set (utterances t)"
    then have "speaker u \<in> int ` {0..<k}" using assms(2) by blast
    then show "0 \<le> speaker u \<and> speaker u < int k" by auto
  qed
  have A: "\<exists>r. assign_speaker_names t names = Inr r
            \<and> (\<forall>u \<in> set (utterances r). 0 \<le> speaker u \<and> speaker u < int (length (speakers r)))"
    using rng len by (auto simp: assign_speaker_names_eq py_range_length)
  obtain r where r: "prompt_speaker_names ask t = Inr r"
      "map speaker (utterances r) = map speaker (utterances t)"
      "length (speakers r) = (if length (speakers t) \<le> 1 then length (speakers t) else card (speaker ` set (utterances t)))"
    using prompt_speaker_names_shape [of ask t] by blast
  have lr: "length (speakers r) = k"
    using r(3) len assms(2) by (simp add: card_index_range)
  have "set (map speaker (utterances r)) = set (map speaker (utterances t))" using r(2) by simp
  then have "speaker ` set (utterances r) = speaker ` set (utterances t)" by simp
  then have "\<forall>u \<in> set (utterances r). 0 \<le> speaker u \<and> speaker u < int k"
    using rng by (metis imageE imageI)
  with r(1) lr have B: "\<exists>r. prompt_speaker_names ask t = Inr r
            \<and> (\<forall>u \<in> set (utterances r). 0 \<le> speaker u \<and> speaker u < int (length (speakers r)))"
    by auto
  show ?thesis using A B by blast
qed

text \<open>
  C3 on the example response, whose speaker indices are 0 and 1.
\<close>

theorem naming_keeps_speaker_indices_in_range_witness:
  "parse_response example_response ''talk.wav'' = Inr example_transcript
   \<and> speaker ` set (utterances example_transcript) = int ` {0..<2}
   \<and> (\<exists>r. assign_speaker_names example_transcript [''Alice''] = Inr r
          \<and> list_all (\<lambda>u. 0 \<le> speaker u \<and> speaker u < int (length (speakers r))) (utterances r))
   \<and> (\<exists>r. prompt_speaker_names (\<lambda>idx sample. ''Carol'') example_transcript = Inr r
          \<and> list_all (\<lambda>u. 0 \<le> speaker u \<and> speaker u < int (length (speakers r))) (utterances r))"
  using naming_keeps_speaker_indices_in_range [OF parse_example example_indices]
    parse_example example_indices
  by (simp add: list_all_iff)

text \<open>
  Claim C3 as stated fails when the provider's speaker indices leave a gap. The response
  \<open>gap_response\<close> has one utterance, attributed to speaker 1: the provider's transcript
  has the single speaker entry \<^verbatim>\<open>Speaker 1\<close>; after \<^verbatim>\<open>_assign_speaker_names\<close> the speakers
  list is \<^verbatim>\<open>["Alice"]\<close>, of length 1, and the utterance still has speaker index 1;
  \<^verbatim>\<open>_prompt_speaker_names\<close> returns the transcript unchanged.
\<close>

theorem provider_gap_counterexample:
  "parse_response gap_response ''talk.wav'' = Inr gap_transcript
   \<and> assign_speaker_names gap_transcript [''Alice''] =
       Inr \<lparr>source_file = ''talk.wav'', duration = 0, speakers = [''Alice''],
            utterances = [\<lparr>speaker = 1, speaker_name = ''Speaker 1'', start = 0, utt_end = 2,
                           utt_text = ''Hi there''\<rparr>],
            raw_text = ''Hi there''\<rparr>
   \<and> prompt_speaker_names (\<lambda>idx sample. ''Carol'') gap_transcript = Inr gap_transcript
   \<and> \<not> (1::int) < int (length [''Alice''])
   \<and> \<not> speaker (utterances gap_transcript ! 0) < int (length (speakers gap_transcript))"
proof -
  have a: "assign_speaker_names gap_transcript [''Alice''] =
       Inr \<lparr>source_file = ''talk.wav'', duration = 0, speakers = [''Alice''],
            utterances = [\<lparr>speaker = 1, speaker_name = ''Speaker 1'', start = 0, utt_end = 2,
                           utt_text = ''Hi there''\<rparr>],
            raw_text = ''Hi there''\<rparr>"
    by (simp add: assign_speaker_names_eq py_range_def gap_transcript_def str_defs)
  have p: "prompt_speaker_names (\<lambda>idx sample. ''Carol'') gap_transcript = Inr gap_transcript"
    by (simp add: prompt_speaker_names_def gap_transcript_def)
  have i: "\<not> speaker (utterances gap_transcript ! 0) < int (length (speakers gap_transcript))"
    by (simp add: gap_transcript_def)
  show ?thesis using parse_gap a p i by simp
qed

subsection \<open>The speakers list after assigning names\<close>

text \<open>
  Claim C4. For every transcript and every name list \<^verbatim>\<open>_assign_speaker_names\<close> returns
  (it raises nothing), the result has as many speakers as the input, and for every
  \<open>i\<close> below that number \<^verbatim>\<open>speakers[i]\<close> is \<^verbatim>\<open>names[i]\<close> when \<open>i < len(names)\<close> and
  \<^verbatim>\<open>"Speaker {i}"\<close> otherwise.
\<close>

theorem assign_speaker_names_speakers:
  "\<exists>r. assign_speaker_names t names = Inr r
     \<and> length (speakers r) = length (speakers t)
     \<and> (\<forall>i < length (speakers t).
          speakers r ! i = (if i < length names then names ! i else speaker_label (int i)))"
  by (simp add: assign_speaker_names_eq py_range_length py_range_nth)

text \<open>
  C4 on the example transcript with a name list shorter than the speakers list.
\<close>

theorem assign_speaker_names_speakers_witness:
  "\<exists>r. assign_speaker_names example_transcript [''Alice''] = Inr r
     \<and> speakers r ! 0 = ''Alice'' \<and> speakers r ! 1 = ''Speaker 1''"
  using assign_speaker_names_speakers [of example_transcript "[''Alice'']"]
  by (auto simp: example_defs str_defs)

subsection \<open>Utterance names after assigning names\<close>

text \<open>
  Claim C5, amended: after \<^verbatim>\<open>_assign_speaker_names\<close>, every utterance of the result whose
  speaker index \<open>i\<close> satisfies \<open>0 \<le> i < len(speakers)\<close> has \<^verbatim>\<open>speaker_name\<close> equal to
  \<^verbatim>\<open>speakers[i]\<close> of the result; every other utterance has the fallback label
  \<^verbatim>\<open>"Speaker {i}"\<close>.
\<close>

theorem assign_speaker_names_utterance_names:
  "\<exists>r. assign_speaker_names t names = Inr r
     \<and> (\<forall>u \<in> set (utterances r).
          if 0 \<le> speaker u \<and> speaker u < int (length (speakers r))
          then list_getitem (speakers r) (speaker u) = Inr (speaker_name u)
          else speaker_name u = speaker_label (speaker u))"
  by (auto simp: assign_speaker_names_eq py_range_length py_range_nth list_getitem_in_range)

text \<open>
  C5 on the transcript with the gap: its utterance takes the fallback branch.
\<close>

theorem assign_speaker_names_utterance_names_witness:
  "\<exists>r. assign_speaker_names gap_transcript [''Alice''] = Inr r
     \<and> list_all (\<lambda>u. speaker u = 1 \<and> speaker_name u = ''Speaker 1'') (utterances r)"
  using assign_speaker_names_utterance_names [of gap_transcript "[''Alice'']"]
  by (auto simp: example_defs str_defs list_all_iff assign_speaker_names_eq)

text \<open>
  Claim C5 as stated fails for an utterance whose speaker index is not below the length
  of the speakers list: in the result for \<open>gap_transcript\<close> the utterance of speaker 1 is
  named \<^verbatim>\<open>Speaker 1\<close>, and \<^verbatim>\<open>speakers[1]\<close> of the result \<^verbatim>\<open>["Alice"]\<close> raises
  \<^verbatim>\<open>IndexError\<close>.
\<close>

theorem unnamed_index_out_of_range_counterexample:
  "assign_speaker_names gap_transcript [''Alice''] =
       Inr \<lparr>source_file = ''talk.wav'', duration = 0, speakers = [''Alice''],
            utterances = [\<lparr>speaker = 1, speaker_name = ''Speaker 1'', start = 0, utt_end = 2,
                           utt_text = ''Hi there''\<rparr>],
            raw_text = ''Hi there''\<rparr>
   \<and> list_getitem [''Alice''] 1 = Inl IndexError"
  by (simp add: assign_speaker_names_eq py_range_def list_getitem_def example_defs str_defs)

subsection \<open>Assigning names twice\<close>

text \<open>
  Claim C6. \<^verbatim>\<open>_assign_speaker_names\<close> is idempotent: applied with the same name list to its
  own result, it returns that result again.
\<close>

theorem assign_speaker_names_idempotent:
  "\<exists>r. assign_speaker_names t names = Inr r \<and> assign_speaker_names r names = Inr r"
  by (simp add: assign_speaker_names_eq py_range_length comp_def)

text \<open>
  C6 on the example transcript.
\<close>

theorem assign_speaker_names_idempotent_witness:
  "\<exists>r. assign_speaker_names example_transcript [''Alice''] = Inr r
     \<and> assign_speaker_names r [''Alice''] = Inr r"
  using assign_speaker_names_idempotent [of example_transcript "[''Alice'']"] by simp

subsection \<open>The weekly digest\<close>

text \<open>
  Claim C7. For a list of action items whose priorities are each \<^verbatim>\<open>high\<close>, \<^verbatim>\<open>normal\<close> or
  \<^verbatim>\<open>low\<close>, the digest is the title followed by the block of the high-priority items, the
  block of the normal ones under "Tasks" and the block of the low-priority ones, in
  this order, an empty group giving no block; the three groups together hold every
  item exactly once; each group keeps the order of the input; and the line of an item
  ends with \<^verbatim>\<open> *(from {source})*\<close> exactly when its source is not empty.
\<close>

theorem weekly_digest_groups:
  assumes "\<forall>a \<in> set items. priority a = ''high'' \<or> priority a = ''normal'' \<or> priority a = ''low''"
  shows "format_weekly_todo_markdown items week =
       join NL
        ([(if week \<noteq> [] then ''# Weekly To-Do '' @ EM_DASH @ '' Week '' @ week else ''# Weekly To-Do'') @ NL]
         @ digest_group ''## High Priority'' (filter (\<lambda>a. priority a = ''high'') items)
         @ digest_group ''## Tasks'' (filter (\<lambda>a. priority a = ''normal'') items)
         @ digest_group ''## Low Priority'' (filter (\<lambda>a. priority a = ''low'') items))
     \<and> mset (filter (\<lambda>a. priority a = ''high'') items @ filter (\<lambda>a. priority a = ''normal'') items
            @ filter (\<lambda>a. priority a = ''low'') items) = mset items
     \<and> subseq (filter (\<lambda>a. priority a = ''high'') items) items
     \<and> subseq (filter (\<lambda>a. priority a = ''normal'') items) items
     \<and> subseq (filter (\<lambda>a. priority a = ''low'') items) items
     \<and> item_line a =
         ''- [ ] '' @ description a @ (if source a \<noteq> [] then '' *(from '' @ source a @ '')*'' else [])"
  using mset_three_groups [OF assms]
  by (simp add: format_weekly_todo_markdown_def weekly_todo_lines_blocks item_line_def)

text \<open>
  C7 on four items for week 3.
\<close>

theorem weekly_digest_groups_witness:
  "format_weekly_todo_markdown example_items ''3'' =
     join NL [''# Weekly To-Do '' @ EM_DASH @ '' Week 3'' @ NL,
              ''## High Priority'' @ NL, ''- [ ] Submit essay'',
              ''- [ ] Email tutor *(from week2.mp4)*'', [],
              ''## Tasks'' @ NL, ''- [ ] Read chapter 2 *(from week1.mp4)*'', [],
              ''## Low Priority'' @ NL, ''- [ ] Optional quiz *(from week1.mp4)*'', []]"
proof -
  have h: "\<forall>a \<in> set example_items. priority a = ''high'' \<or> priority a = ''normal'' \<or> priority a = ''low''"
    by (simp add: example_items_def)
  note w = weekly_digest_groups [OF h, THEN conjunct1]
  show ?thesis using w [of "''3''"] by (simp add: example_items_def digest_group_def item_line_def)
qed

subsection \<open>What assigning names leaves alone\<close>

text \<open>
  Claim C8. Over a store of utterance objects \<^verbatim>\<open>_assign_speaker_names\<close> returns a
  transcript with the \<^verbatim>\<open>source_file\<close>, \<^verbatim>\<open>duration\<close> and \<^verbatim>\<open>raw_text\<close> of the input and as many
  utterances, each agreeing with the input's utterance at the same position on
  \<^verbatim>\<open>speaker\<close>, \<^verbatim>\<open>start\<close>, \<^verbatim>\<open>end\<close> and \<^verbatim>\<open>text\<close>; every object that was in the store is
  unchanged, so the input transcript denotes the same value as before; and the value of
  the result is the one the function on values computes.
\<close>

theorem assign_speaker_names_frame:
  assumes "well_formed st t"
  shows "\<exists>st' r. assign_speaker_names_store st t names = Inr (st', r)
     \<and> source_file r = source_file t \<and> duration r = duration t \<and> raw_text r = raw_text t
     \<and> length (utterances r) = length (utterances t)
     \<and> (\<forall>i < length (utterances t).
           speaker (st' ! (utterances r ! i)) = speaker (st ! (utterances t ! i))
         \<and> start (st' ! (utterances r ! i)) = start (st ! (utterances t ! i))
         \<and> utt_end (st' ! (utterances r ! i)) = utt_end (st ! (utterances t ! i))
         \<and> utt_text (st' ! (utterances r ! i)) = utt_text (st ! (utterances t ! i)))
     \<and> length st \<le> length st' \<and> (\<forall>a < length st. st' ! a = st ! a)
     \<and> load st' t = load st t
     \<and> assign_speaker_names (load st t) names = Inr (load st' r)"
proof -
  let ?nm = "map (\<lambda>i. (i, if i < int (length names) then names ! nat i else speaker_label i))
                 (py_range (length (speakers t)))"
  let ?new = "map (\<lambda>a. rename_utterance ?nm (st ! a)) (utterances t)"
  let ?sp = "map (\<lambda>i. if i < int (length names) then names ! nat i else speaker_label i)
                 (py_range (length (speakers t)))"
  let ?r = "t\<lparr>speakers := ?sp, utterances := [length st..<length st + length (utterances t)]\<rparr>"
  have wf: "\<forall>a \<in> set (utterances t). a < length st" using assms by (simp add: well_formed_iff)
  have eq: "assign_speaker_names_store st t names = Inr (st @ ?new, ?r)"
    by (rule assign_speaker_names_store_eq [OF assms])
  have fields: "\<forall>i < length (utterances t).
           speaker ((st @ ?new) ! (utterances ?r ! i)) = speaker (st ! (utterances t ! i))
         \<and> start ((st @ ?new) ! (utterances ?r ! i)) = start (st ! (utterances t ! i))
         \<and> utt_end ((st @ ?new) ! (utterances ?r ! i)) = utt_end (st ! (utterances t ! i))
         \<and> utt_text ((st @ ?new) ! (utterances ?r ! i)) = utt_text (st ! (utterances t ! i))"
    by (simp add: nth_append rename_utterance_def)
  have old: "\<forall>a < length st. (st @ ?new) ! a = st ! a" by (simp add: nth_append)
  have unchanged: "load (st @ ?new) t = load st t" by (rule load_extended [OF wf])
  have "load (st @ ?new) ?r =
      \<lparr>source_file = source_file t, duration = duration t, speakers = ?sp,
       utterances = ?new, raw_text = raw_text t\<rparr>"
    using load_fresh [where st = st and new = ?new and t = t and sp = ?sp] by simp
  then have agree: "assign_speaker_names (load st t) names = Inr (load (st @ ?new) ?r)"
    by (simp add: assign_speaker_names_eq load_def rename_utterance_def name_for_range comp_def)
  show ?thesis
    using eq fields old unchanged agree by (intro exI [of _ "st @ ?new"] exI [of _ ?r]) simp
qed

text \<open>
  C8 on the example transcript, held in a store of two utterance objects.
\<close>

theorem assign_speaker_names_frame_witness:
  "well_formed example_utterances example_object
   \<and> (\<exists>st' r. assign_speaker_names_store example_utterances example_object [''Alice'', ''Bob''] = Inr (st', r)
        \<and> st' ! 0 = example_utterances ! 0 \<and> st' ! 1 = example_utterances ! 1
        \<and> load st' example_object = example_transcript
        \<and> assign_speaker_names example_transcript [''Alice'', ''Bob''] = Inr (load st' r))"
proof -
  have h: "well_formed example_utterances example_object"
    by (simp add: well_formed_def example_defs)
  have l: "load example_utterances example_object = example_transcript"
    by (simp add: load_def example_defs)
  show ?thesis
    using h l assign_speaker_names_frame [OF h, of "[''Alice'', ''Bob'']"]
    by (auto simp: example_utterances_def)
qed

subsection \<open>The batch command without sidecar files\<close>

text \<open>
  Claim C9. When the directory exists and no file matches \<^verbatim>\<open>*_actions.json\<close>, the batch
  command prints the warning and exits with code 0; it writes no file and does not call
  the consolidation collaborator.
\<close>

theorem batch_without_sidecars:
  assumes "dir_exists env" and "json_files env = []"
  shows "batch env directory output week =
           \<lparr>exit_code = 0,
            console = [''[yellow]No action JSON files found in directory.[/yellow]''],
            collaborator_calls = [], files_written = []\<rparr>"
  using assms by (simp add: batch_def)

text \<open>
  C9 on an existing directory without sidecar files.
\<close>

theorem batch_without_sidecars_witness:
  "dir_exists empty_dir_env \<and> json_files empty_dir_env = []
   \<and> exit_code (batch empty_dir_env ''sidecars'' None []) = 0
   \<and> files_written (batch empty_dir_env ''sidecars'' None []) = []
   \<and> collaborator_calls (batch empty_dir_env ''sidecars'' None []) = []"
proof -
  have h1: "dir_exists empty_dir_env" by (simp add: empty_dir_env_def)
  have h2: "json_files empty_dir_env = []" by (simp add: empty_dir_env_def)
  show ?thesis using h1 h2 batch_without_sidecars [OF h1 h2, of "''sidecars''" None "[]"] by simp
qed

subsection \<open>The fallback label of an unnamed utterance\<close>

text \<open>
  Claim C10. For an utterance whose \<^verbatim>\<open>speaker_name\<close> is empty, the line that the markdown
  renderer and the line that the plain-text renderer emit for it show the label
  \<^verbatim>\<open>Speaker {i}\<close>, with \<open>i\<close> the utterance's speaker index, as the speaker's name.
\<close>

theorem unnamed_speaker_fallback_label:
  assumes "i < length (utterances t)" and "speaker_name (utterances t ! i) = []"
  shows "markdown_body t ! i =
           ''**['' @ format_timestamp (start (utterances t ! i)) @ ''] Speaker ''
             @ str_int (speaker (utterances t ! i)) @ '':** '' @ utt_text (utterances t ! i) @ NL
     \<and> text_lines t ! i =
           ''['' @ format_timestamp (start (utterances t ! i)) @ ''] Speaker ''
             @ str_int (speaker (utterances t ! i)) @ '': '' @ utt_text (utterances t ! i)
     \<and> format_transcript_markdown stem t summ = join NL (markdown_head stem t summ @ markdown_body t)
     \<and> format_transcript_text t = join NL (text_lines t)"
proof -
  have ne: "utterances t \<noteq> []" using assms(1) by auto
  show ?thesis
    using assms ne
    by (simp add: markdown_body_def text_lines_def markdown_line_def text_line_def display_name_def
        speaker_label_def format_transcript_markdown_def format_transcript_text_def)
qed

text \<open>
  C10 on the second utterance of the example transcript, before any naming.
\<close>

theorem unnamed_speaker_fallback_label_witness:
  "1 < length (utterances example_transcript)
   \<and> speaker_name (utterances example_transcript ! 1) = []
   \<and> markdown_body example_transcript ! 1 = ''**[00:02] Speaker 1:** Hi there'' @ NL
   \<and> text_lines example_transcript ! 1 = ''[00:02] Speaker 1: Hi there''"
proof -
  have h1: "1 < length (utterances example_transcript)" by (simp add: example_defs)
  have h2: "speaker_name (utterances example_transcript ! 1) = []" by (simp add: example_defs)
  note w = unnamed_speaker_fallback_label [OF h1 h2]
  have w1: "markdown_body example_transcript ! 1 = ''**[00:02] Speaker 1:** Hi there'' @ NL"
    using w [THEN conjunct1] by (simp add: example_defs format_timestamp_2 str_defs)
  have w2: "text_lines example_transcript ! 1 = ''[00:02] Speaker 1: Hi there''"
    using w [THEN conjunct2, THEN conjunct1] by (simp add: example_defs format_timestamp_2 str_defs)
  show ?thesis using h1 h2 w1 w2 by simp
qed

end
